theory Spec2Isabelle
  imports Complex_Main "HOL-Library.Log_Nat"
begin

section \<open>Python values, errors and string formatting\<close>

text \<open>
  The exceptions the modelled code can raise.  \<open>EngineError\<close> stands for any failure
  raised inside the tensor engine (training, replication across devices, saving).
\<close>

datatype error = ValueError | IndexError | OverflowError | AttributeError | EngineError

text \<open>Sequencing of computations that may raise: the first error aborts the rest.\<close>

definition and_then :: "error + 'a \<Rightarrow> ('a \<Rightarrow> error + 'b) \<Rightarrow> error + 'b" where
  "and_then m f = (case m of Inl e \<Rightarrow> Inl e | Inr x \<Rightarrow> f x)"

subsection \<open>Floating-point numbers\<close>

text \<open>
  A Python \<^verbatim>\<open>float\<close> is an IEEE 754 binary64 number: a finite value (kept as the rational
  it denotes; the two zeros are not told apart), an infinity, or not-a-number.
\<close>

datatype pyfloat = Finite rat | PosInf | NegInf | NaN

text \<open>Powers of two, by repeated squaring.\<close>

fun pow2_nat :: "nat \<Rightarrow> rat" where
  "pow2_nat n =
     (if n = 0 then 1
      else let h = pow2_nat (n div 2) in if even n then h * h else 2 * h * h)"

declare pow2_nat.simps [simp del]

definition pow2 :: "int \<Rightarrow> rat" where
  "pow2 e = (if 0 \<le> e then pow2_nat (nat e) else 1 / pow2_nat (nat (- e)))"

text \<open>For \<open>q > 0\<close>, the exponent \<open>e\<close> with \<open>2\<^sup>e \<le> q < 2\<^sup>e\<^sup>+\<^sup>1\<close>, from the bit lengths of
  numerator and denominator.\<close>

definition ilog2 :: "rat \<Rightarrow> int" where
  "ilog2 q =
     (let e0 = bitlen (fst (quotient_of q)) - bitlen (snd (quotient_of q))
      in if pow2 e0 \<le> q then e0 else e0 - 1)"

definition round_half_even :: "rat \<Rightarrow> int" where
  "round_half_even q =
     (let f = \<lfloor>q\<rfloor>; r = q - of_int f
      in if r < 1 / 2 then f else if 1 / 2 < r then f + 1 else if even f then f else f + 1)"

text \<open>
  Rounding of an exact result to binary64: to the nearest number with a 53-bit
  significand (exponents from \<open>-1022\<close>, below them the subnormal spacing \<open>2\<^sup>-\<^sup>1\<^sup>0\<^sup>7\<^sup>4\<close>), ties to
  the even significand.  The rounded magnitude \<open>n \<sqdot> 2\<^sup>e\<^sup>-\<^sup>5\<^sup>2\<close> has \<open>n \<le> 2\<^sup>5\<^sup>3\<close>; it becomes an
  infinity when it reaches \<open>2\<^sup>1\<^sup>0\<^sup>2\<^sup>4\<close>, that is when \<open>e \<ge> 1024\<close>, or \<open>e = 1023\<close> and \<open>n = 2\<^sup>5\<^sup>3\<close>.
\<close>

definition round_double :: "rat \<Rightarrow> pyfloat" where
  "round_double q =
     (if q = 0 then Finite 0
      else
        let a = \<bar>q\<bar>;
            e = max (ilog2 a) (- 1022);
            u = pow2 (e - 52);
            n = round_half_even (a / u)
        in if 1024 \<le> e \<or> (e = 1023 \<and> pow2 53 \<le> of_int n)
           then (if 0 < q then PosInf else NegInf)
           else Finite (if 0 < q then of_int n * u else - (of_int n * u)))"

fun float_mul :: "pyfloat \<Rightarrow> pyfloat \<Rightarrow> pyfloat" where
  "float_mul (Finite a) (Finite b) = round_double (a * b)"
| "float_mul NaN _ = NaN"
| "float_mul _ NaN = NaN"
| "float_mul (Finite a) PosInf = (if a = 0 then NaN else if 0 < a then PosInf else NegInf)"
| "float_mul (Finite a) NegInf = (if a = 0 then NaN else if 0 < a then NegInf else PosInf)"
| "float_mul PosInf (Finite b) = (if b = 0 then NaN else if 0 < b then PosInf else NegInf)"
| "float_mul NegInf (Finite b) = (if b = 0 then NaN else if 0 < b then NegInf else PosInf)"
| "float_mul PosInf PosInf = PosInf"
| "float_mul PosInf NegInf = NegInf"
| "float_mul NegInf PosInf = NegInf"
| "float_mul NegInf NegInf = PosInf"

fun float_sub :: "pyfloat \<Rightarrow> pyfloat \<Rightarrow> pyfloat" where
  "float_sub (Finite a) (Finite b) = round_double (a - b)"
| "float_sub NaN _ = NaN"
| "float_sub _ NaN = NaN"
| "float_sub (Finite a) PosInf = NegInf"
| "float_sub (Finite a) NegInf = PosInf"
| "float_sub PosInf (Finite b) = PosInf"
| "float_sub NegInf (Finite b) = NegInf"
| "float_sub PosInf PosInf = NaN"
| "float_sub PosInf NegInf = PosInf"
| "float_sub NegInf PosInf = NegInf"
| "float_sub NegInf NegInf = NaN"

text \<open>
  The binary64 number nearest to a real.  The real is first cut to a rational that lies
  on the same side of every binary64 number and of every midpoint between two of them
  (all of these are multiples of \<open>2\<^sup>-\<^sup>1\<^sup>0\<^sup>7\<^sup>5\<close>), which \<open>round_double\<close> then rounds.
\<close>

definition nearest_double :: "real \<Rightarrow> pyfloat" where
  "nearest_double r =
     (let f = \<lfloor>r * 2 ^ 1100\<rfloor>
      in round_double ((2 * of_int f + (if of_int f = r * 2 ^ 1100 then 0 else 1)) / 2 ^ 1101))"

text \<open>
  \<^verbatim>\<open>np.log2\<close> of an integer is computed by the numerical library in binary64; how its
  result is rounded is the library's affair, so the function is a parameter of the model
  (field \<open>np_log2\<close> of \<open>engine\<close> below).  \<open>log2_nearest\<close> is the function a correctly
  rounding library computes: the integer is converted to binary64, the logarithm of zero
  is \<open>-\<infinity>\<close>, that of a negative number is not a number, a power of two has its exact
  exponent, and any other number the binary64 number nearest to its logarithm.
\<close>

definition log2_nearest :: "int \<Rightarrow> pyfloat" where
  "log2_nearest n =
     (case round_double (of_int n) of
        Finite q \<Rightarrow>
          if q < 0 then NaN
          else if q = 0 then NegInf
          else if q = pow2 (ilog2 q) then Finite (of_int (ilog2 q))
          else nearest_double (log 2 (real_of_rat q))
      | PosInf \<Rightarrow> PosInf
      | NegInf \<Rightarrow> NaN
      | NaN \<Rightarrow> NaN)"

text \<open>
  A Python number is an \<^verbatim>\<open>int\<close> (unbounded) or a \<^verbatim>\<open>float\<close>.  \<^verbatim>\<open>n * x\<close> for an int
  \<open>n\<close> is exact when \<open>x\<close> is an int; when \<open>x\<close> is a float, \<open>n\<close> is converted to a float first
  (an int too large for that raises) and the product is rounded.  \<^verbatim>\<open>int(x)\<close> truncates
  towards zero and raises on an infinity and on not-a-number.
\<close>

datatype number = PyInt int | PyFloat pyfloat

definition int_to_float :: "int \<Rightarrow> error + pyfloat" where
  "int_to_float n =
     (case round_double (of_int n) of Finite q \<Rightarrow> Inr (Finite q) | _ \<Rightarrow> Inl OverflowError)"

fun int_times :: "int \<Rightarrow> number \<Rightarrow> error + number" where
  "int_times n (PyInt r) = Inr (PyInt (n * r))"
| "int_times n (PyFloat x) = and_then (int_to_float n) (\<lambda>a. Inr (PyFloat (float_mul a x)))"

definition rat_truncate :: "rat \<Rightarrow> int" where
  "rat_truncate q = (if 0 \<le> q then \<lfloor>q\<rfloor> else \<lceil>q\<rceil>)"

fun py_int :: "number \<Rightarrow> error + int" where
  "py_int (PyInt n) = Inr n"
| "py_int (PyFloat (Finite q)) = Inr (rat_truncate q)"
| "py_int (PyFloat NaN) = Inl ValueError"
| "py_int (PyFloat _) = Inl OverflowError"

subsection \<open>String formatting\<close>

definition digit_char :: "nat \<Rightarrow> char" where
  "digit_char d = char_of (48 + d)"

fun str_nat :: "nat \<Rightarrow> string" where
  "str_nat n = (if n < 10 then [digit_char n] else str_nat (n div 10) @ [digit_char (n mod 10)])"

declare str_nat.simps [simp del]

text \<open>\<^verbatim>\<open>"{0:02d}".format(n)\<close>: decimal, padded with zeros to a minimal width of two.\<close>

definition format_02d :: "int \<Rightarrow> string" where
  "format_02d n =
     (let s = (if n < 0 then CHR ''-'' # str_nat (nat (- n)) else str_nat (nat n))
      in replicate (2 - length s) (CHR ''0'') @ s)"

definition lower_char :: "char \<Rightarrow> char" where
  "lower_char c = (let k = (of_char c :: nat) in if 65 \<le> k \<and> k \<le> 90 then char_of (k + 32) else c)"

definition lower :: "string \<Rightarrow> string" where
  "lower s = map lower_char s"

section \<open>Hyperparameters\<close>

text \<open>The attributes set by \<^verbatim>\<open>StandardConvNet.__init__\<close> (and inherited by \<^verbatim>\<open>ResNet\<close>).\<close>

record hyperparameters =
  min_filters :: int
  filter_growth_rate :: number
  filter_width :: int
  min_data_width :: int
  hidden_activation :: string
  output_activation :: string
  pooling :: string
  use_dropout :: bool
  dropout_alpha :: number
  data_format :: string
  optimizer :: string
  loss :: string
  leaky_alpha :: number
  learning_rate :: number
  batch_size :: int
  epochs :: int
  verbose :: int

text \<open>The defaults of the constructor.\<close>

definition default_hyperparameters :: hyperparameters where
  "default_hyperparameters =
     \<lparr> min_filters = 16, filter_growth_rate = PyInt 2, filter_width = 5, min_data_width = 4,
       hidden_activation = ''relu'', output_activation = ''sigmoid'', pooling = ''mean'',
       use_dropout = False, dropout_alpha = PyFloat (Finite 0), data_format = ''channels_first'',
       optimizer = ''adam'', loss = ''mse'', leaky_alpha = PyFloat (round_double (1 / 10)),
       learning_rate = PyFloat (round_double (1 / 100000)), batch_size = 256, epochs = 10, verbose = 0 \<rparr>"

section \<open>The libraries\<close>

text \<open>
  The code calls NumPy and the tensor engine.  What the model needs of them is a
  parameter: the binary64 logarithm to base two, and whether the engine's training,
  replication and saving calls raise.
\<close>

record engine =
  np_log2 :: "int \<Rightarrow> pyfloat"
  fit_raises :: bool
  replicate_raises :: bool
  save_raises :: bool

section \<open>Layers and the layer graph\<close>

text \<open>
  The layer constructors the code calls, with the arguments it passes: the number of
  filters and the kernel width of a convolution, the data format, the name.  A name is
  \<open>None\<close> where the code gives none (the projection convolution and \<^verbatim>\<open>Add()\<close>).
\<close>

datatype layer =
    Input "nat list" string
  | Conv2D int int string "string option"
  | Activation string string
  | LeakyReLU number string
  | BatchNormalization int string
  | MaxPool2D string string
  | AveragePooling2D string string
  | Flatten string
  | Dropout number string
  | Dense nat string
  | Add

text \<open>
  A symbolic tensor carries its shape (without the batch axis) and the index of the graph
  node that produced it; the graph is the list of nodes in creation order.
\<close>

record tensor =
  tid :: nat
  tshape :: "nat list"

record node =
  nlayer :: layer
  inbound :: "nat list"
  nshape :: "nat list"

type_synonym graph = "node list"

subsection \<open>Output shapes of the layers\<close>

text \<open>The data formats a convolution or pooling layer accepts, after lower-casing.\<close>

definition normalize_data_format :: "string \<Rightarrow> error + string" where
  "normalize_data_format v =
     (let d = lower v
      in if d = ''channels_first'' \<or> d = ''channels_last'' then Inr d else Inl ValueError)"

text \<open>
  A convolution with \<^verbatim>\<open>padding="same"\<close> keeps the spatial sizes and sets the channel axis
  to the number of filters.  It needs an input of three axes; a negative number of
  filters or kernel width is rejected.
\<close>

definition conv2d_shape :: "int \<Rightarrow> int \<Rightarrow> string \<Rightarrow> nat list \<Rightarrow> error + nat list" where
  "conv2d_shape f k df s =
     and_then (normalize_data_format df) (\<lambda>d.
       if length s \<noteq> 3 \<or> f < 0 \<or> k < 0 then Inl ValueError
       else if d = ''channels_first'' then Inr [nat f, s ! 1, s ! 2]
       else Inr [s ! 0, s ! 1, nat f])"

text \<open>
  Pooling with the default window and stride of two and no padding halves both spatial
  sizes, rounding down; a spatial size below the window is rejected.
\<close>

definition pool2d_shape :: "string \<Rightarrow> nat list \<Rightarrow> error + nat list" where
  "pool2d_shape df s =
     and_then (normalize_data_format df) (\<lambda>d.
       if length s \<noteq> 3 then Inl ValueError
       else if d = ''channels_first'' then
         (if s ! 1 < 2 \<or> s ! 2 < 2 then Inl ValueError else Inr [s ! 0, s ! 1 div 2, s ! 2 div 2])
       else
         (if s ! 0 < 2 \<or> s ! 1 < 2 then Inl ValueError else Inr [s ! 0 div 2, s ! 1 div 2, s ! 2]))"

text \<open>The shape of an element-wise merge: equal sizes, or a size of one that is broadcast.\<close>

fun elemwise_shape :: "nat list \<Rightarrow> nat list \<Rightarrow> error + nat list" where
  "elemwise_shape [] [] = Inr []"
| "elemwise_shape (i # is) (j # js) =
     and_then (elemwise_shape is js) (\<lambda>r.
       if i = 1 then Inr (j # r)
       else if j = 1 then Inr (i # r)
       else if i \<noteq> j then Inl ValueError
       else Inr (i # r))"
| "elemwise_shape _ _ = Inl ValueError"

text \<open>\<^verbatim>\<open>Flatten\<close> needs at least two axes besides the batch axis and rejects a shape with
  a size that is zero; \<^verbatim>\<open>Dense\<close> replaces the last axis.\<close>

fun layer_shape :: "layer \<Rightarrow> nat list list \<Rightarrow> error + nat list" where
  "layer_shape (Input s _) [] = Inr s"
| "layer_shape (Conv2D f k df _) [s] = conv2d_shape f k df s"
| "layer_shape (Activation _ _) [s] = Inr s"
| "layer_shape (LeakyReLU _ _) [s] = Inr s"
| "layer_shape (BatchNormalization _ _) [s] = Inr s"
| "layer_shape (MaxPool2D df _) [s] = pool2d_shape df s"
| "layer_shape (AveragePooling2D df _) [s] = pool2d_shape df s"
| "layer_shape (Flatten _) [s] =
     (if length s < 2 \<or> 0 \<in> set s then Inl ValueError else Inr [prod_list s])"
| "layer_shape (Dropout _ _) [s] = Inr s"
| "layer_shape (Dense n _) [s] = (if s = [] then Inl ValueError else Inr (butlast s @ [n]))"
| "layer_shape Add [s1, s2] = elemwise_shape s1 s2"
| "layer_shape _ _ = Inl ValueError"

text \<open>Calling a layer on tensors adds one node to the graph, or raises.\<close>

definition call_layer :: "layer \<Rightarrow> tensor list \<Rightarrow> graph \<Rightarrow> error + (tensor \<times> graph)" where
  "call_layer l ins g =
     and_then (layer_shape l (map tshape ins)) (\<lambda>s.
       Inr (\<lparr> tid = length g, tshape = s \<rparr>,
            g @ [\<lparr> nlayer = l, inbound = map tid ins, nshape = s \<rparr>]))"

text \<open>A Keras model: its input and output tensors and the graph between them; the number
  of devices it was replicated over, if it was; and the optimizer it was compiled with,
  if it was.\<close>

record kmodel =
  m_input :: tensor
  m_output :: tensor
  m_graph :: graph
  m_gpus :: "int option"
  m_optimizer :: "string option"

section \<open>StandardConvNet.build\_network\<close>

text \<open>\<^verbatim>\<open>int(np.log2(input_shape[1]) - np.log2(self.min_data_width))\<close>\<close>

definition num_conv_layers :: "engine \<Rightarrow> nat \<Rightarrow> int \<Rightarrow> error + int" where
  "num_conv_layers eng w m =
     py_int (PyFloat (float_sub (np_log2 eng (int w)) (np_log2 eng m)))"

text \<open>\<^verbatim>\<open>int(num_filters * self.filter_growth_rate)\<close>\<close>

definition next_filters :: "int \<Rightarrow> number \<Rightarrow> error + int" where
  "next_filters num_filters rate = and_then (int_times num_filters rate) py_int"

definition hidden_layer :: "hyperparameters \<Rightarrow> string \<Rightarrow> layer" where
  "hidden_layer hp name =
     (if hidden_activation hp = ''leaky'' then LeakyReLU (leaky_alpha hp) name
      else Activation (hidden_activation hp) name)"

definition pooling_layer :: "hyperparameters \<Rightarrow> string \<Rightarrow> layer" where
  "pooling_layer hp name =
     (if lower (pooling hp) = ''max'' then MaxPool2D (data_format hp) name
      else AveragePooling2D (data_format hp) name)"

text \<open>The loop \<^verbatim>\<open>for c in range(num_conv_layers)\<close>: \<open>c\<close> is the counter, \<open>n\<close> the number
  of iterations left, \<open>nf\<close> the current \<^verbatim>\<open>num_filters\<close>.\<close>

fun scn_stages ::
  "hyperparameters \<Rightarrow> nat \<Rightarrow> nat \<Rightarrow> int \<Rightarrow> tensor \<Rightarrow> graph \<Rightarrow> error + (tensor \<times> graph)" where
  "scn_stages hp c 0 nf t g = Inr (t, g)"
| "scn_stages hp c (Suc n) nf t g =
     and_then (call_layer (Conv2D nf (filter_width hp) (data_format hp)
                             (Some (''conv_'' @ format_02d (int c)))) [t] g) (\<lambda>(t1, g1).
     and_then (call_layer (hidden_layer hp (''hidden_activation_'' @ format_02d (int c))) [t1] g1)
       (\<lambda>(t2, g2).
     and_then (next_filters nf (filter_growth_rate hp)) (\<lambda>nf'.
     and_then (call_layer (pooling_layer hp (''pooling_'' @ format_02d (int c))) [t2] g2)
       (\<lambda>(t3, g3).
     scn_stages hp (Suc c) n nf' t3 g3))))"

text \<open>The tail shared by both networks: flatten, optional dropout, dense, output activation.\<close>

definition network_tail ::
  "hyperparameters \<Rightarrow> nat \<Rightarrow> tensor \<Rightarrow> graph \<Rightarrow> error + (tensor \<times> graph)" where
  "network_tail hp output_size t g =
     and_then (call_layer (Flatten ''flatten'') [t] g) (\<lambda>(t1, g1).
     and_then (if use_dropout hp
               then call_layer (Dropout (dropout_alpha hp) ''dense_dropout'') [t1] g1
               else Inr (t1, g1)) (\<lambda>(t2, g2).
     and_then (call_layer (Dense output_size ''dense_output'') [t2] g2) (\<lambda>(t3, g3).
     call_layer (Activation (output_activation hp) ''activation_output'') [t3] g3)))"

definition new_model :: "tensor \<Rightarrow> tensor \<Rightarrow> graph \<Rightarrow> kmodel" where
  "new_model i out g =
     \<lparr> m_input = i, m_output = out, m_graph = g, m_gpus = None, m_optimizer = None \<rparr>"

definition scn_build_network ::
  "engine \<Rightarrow> hyperparameters \<Rightarrow> nat list \<Rightarrow> nat \<Rightarrow> error + kmodel" where
  "scn_build_network eng hp input_shape output_size =
     and_then (call_layer (Input input_shape ''scn_input'') [] []) (\<lambda>(input_layer, g0).
     if length input_shape < 2 then Inl IndexError
     else
     and_then (num_conv_layers eng (input_shape ! 1) (min_data_width hp)) (\<lambda>k.
     and_then (scn_stages hp 0 (nat k) (min_filters hp) input_layer g0) (\<lambda>(t, g).
     and_then (network_tail hp output_size t g) (\<lambda>(out, g').
     Inr (new_model input_layer out g')))))"

section \<open>ResNet\<close>

text \<open>
  \<^verbatim>\<open>in_layer.shape[-1].value\<close>: the last entry of the tensor's full shape.  The full shape
  starts with the batch axis, whose size is unknown (\<open>None\<close>).
\<close>

definition last_dim :: "tensor \<Rightarrow> int option" where
  "last_dim t = (if tshape t = [] then None else Some (int (last (tshape t))))"

definition residual_block ::
  "hyperparameters \<Rightarrow> int \<Rightarrow> tensor \<Rightarrow> nat \<Rightarrow> graph \<Rightarrow> error + (tensor \<times> graph)" where
  "residual_block hp filters in_layer layer_number g =
     (let norm_axis = (if data_format hp = ''channels_first'' then 1 else - 1);
          nn = format_02d (int layer_number)
      in
     and_then (if last_dim in_layer \<noteq> Some filters
               then call_layer (Conv2D filters (filter_width hp) (data_format hp) None) [in_layer] g
               else Inr (in_layer, g)) (\<lambda>(x, g1).
     and_then (call_layer (BatchNormalization norm_axis (''bn_res_'' @ nn @ ''_a'')) [x] g1)
       (\<lambda>(y1, g2).
     and_then (call_layer (hidden_layer hp (''res_activation_'' @ nn @ ''_a'')) [y1] g2)
       (\<lambda>(y2, g3).
     and_then (call_layer (Conv2D filters (filter_width hp) (data_format hp)
                             (Some (''res_conv_'' @ nn @ ''_a''))) [y2] g3) (\<lambda>(y3, g4).
     and_then (call_layer (BatchNormalization norm_axis (''bn_res_'' @ nn @ ''_b'')) [y3] g4)
       (\<lambda>(y4, g5).
     and_then (call_layer (hidden_layer hp (''res_activation_'' @ nn @ ''_b'')) [y4] g5)
       (\<lambda>(y5, g6).
     and_then (call_layer (Conv2D filters (filter_width hp) (data_format hp)
                             (Some (''res_conv_'' @ nn @ ''_b''))) [y5] g6) (\<lambda>(y, g7).
     call_layer Add [y, x] g7))))))))"

fun res_stages ::
  "hyperparameters \<Rightarrow> nat \<Rightarrow> nat \<Rightarrow> int \<Rightarrow> tensor \<Rightarrow> graph \<Rightarrow> error + (tensor \<times> graph)" where
  "res_stages hp c 0 nf t g = Inr (t, g)"
| "res_stages hp c (Suc n) nf t g =
     and_then (residual_block hp nf t c g) (\<lambda>(t1, g1).
     and_then (next_filters nf (filter_growth_rate hp)) (\<lambda>nf'.
     and_then (call_layer (pooling_layer hp (''pooling_'' @ format_02d (int c))) [t1] g1)
       (\<lambda>(t2, g2).
     res_stages hp (Suc c) n nf' t2 g2)))"

definition res_build_network ::
  "engine \<Rightarrow> hyperparameters \<Rightarrow> nat list \<Rightarrow> nat \<Rightarrow> error + kmodel" where
  "res_build_network eng hp input_shape output_size =
     and_then (call_layer (Input input_shape ''scn_input'') [] []) (\<lambda>(input_layer, g0).
     if length input_shape < 2 then Inl IndexError
     else
     and_then (num_conv_layers eng (input_shape ! 1) (min_data_width hp)) (\<lambda>k.
     and_then (res_stages hp 0 (nat k) (min_filters hp) input_layer g0) (\<lambda>(t, g).
     and_then (network_tail hp output_size t g) (\<lambda>(out, g').
     Inr (new_model input_layer out g')))))"

section \<open>Reading a built graph\<close>

text \<open>The filter counts of the named convolutions of a graph, in creation order: one
  for each stage of the plain network, two for each stage of the residual network.\<close>

definition conv_filters :: "graph \<Rightarrow> int list" where
  "conv_filters g =
     concat (map (\<lambda>nd. case nlayer nd of Conv2D f _ _ (Some _) \<Rightarrow> [f] | _ \<Rightarrow> []) g)"

definition is_pooling :: "layer \<Rightarrow> bool" where
  "is_pooling l = (case l of MaxPool2D _ _ \<Rightarrow> True | AveragePooling2D _ _ \<Rightarrow> True | _ \<Rightarrow> False)"

definition count_layers :: "(layer \<Rightarrow> bool) \<Rightarrow> graph \<Rightarrow> nat" where
  "count_layers P g = length (filter P (map nlayer g))"

text \<open>
  The filter sequence in the words of the specification: each count is the floor of the
  previous count times the growth rate, the product being the program's.
\<close>

fun floor_number :: "number \<Rightarrow> int option" where
  "floor_number (PyInt n) = Some n"
| "floor_number (PyFloat (Finite q)) = Some \<lfloor>q\<rfloor>"
| "floor_number (PyFloat _) = None"

definition floor_product :: "int \<Rightarrow> number \<Rightarrow> int option" where
  "floor_product n rate = (case int_times n rate of Inl e \<Rightarrow> None | Inr p \<Rightarrow> floor_number p)"

fun grows_by :: "number \<Rightarrow> int list \<Rightarrow> bool" where
  "grows_by rate (x # y # ys) = (floor_product x rate = Some y \<and> grows_by rate (y # ys))"
| "grows_by rate _ = True"

text \<open>
  The conditions under which a build is claimed to succeed: the spatial sizes of a shape
  under a data format; the filter counts of the first \<open>n\<close> stages are positive and every
  product \<^verbatim>\<open>int(num_filters * self.filter_growth_rate)\<close> of the loop is computed without
  an error; an activation name is one of the functions Keras provides.
\<close>

definition spatial_sizes :: "string \<Rightarrow> nat list \<Rightarrow> nat list" where
  "spatial_sizes d s = (if d = ''channels_first'' then [s ! 1, s ! 2] else [s ! 0, s ! 1])"

fun stage_filters_ok :: "number \<Rightarrow> int \<Rightarrow> nat \<Rightarrow> bool" where
  "stage_filters_ok rate nf 0 = True"
| "stage_filters_ok rate nf (Suc n) =
     (0 < nf \<and> (case next_filters nf rate of Inl e \<Rightarrow> False
                 | Inr nf' \<Rightarrow> stage_filters_ok rate nf' n))"

definition standard_activation :: "string \<Rightarrow> bool" where
  "standard_activation name \<longleftrightarrow>
     name \<in> set [''softmax'', ''elu'', ''selu'', ''softplus'', ''softsign'', ''relu'', ''tanh'',
                 ''sigmoid'', ''hard_sigmoid'', ''linear'']"

definition number_nonneg :: "number \<Rightarrow> bool" where
  "number_nonneg x =
     (case x of PyInt n \<Rightarrow> 0 \<le> n | PyFloat (Finite q) \<Rightarrow> 0 \<le> q | PyFloat PosInf \<Rightarrow> True
      | PyFloat _ \<Rightarrow> False)"

section \<open>The network objects and their training\<close>

datatype net_class = StandardConvNet | ResNet

text \<open>A network object: its class, the attributes of the constructor, and the mutable
  attributes \<^verbatim>\<open>model\<close> and \<^verbatim>\<open>parallel_model\<close>, both \<^verbatim>\<open>None\<close> at first.\<close>

record conv_net =
  cls :: net_class
  params :: hyperparameters
  model :: "kmodel option"
  parallel_model :: "kmodel option"

definition new_net :: "net_class \<Rightarrow> hyperparameters \<Rightarrow> conv_net" where
  "new_net c h = \<lparr> cls = c, params = h, model = None, parallel_model = None \<rparr>"

text \<open>\<^verbatim>\<open>build_network\<close> is overridden by \<^verbatim>\<open>ResNet\<close>; both store the new model in the object.\<close>

definition build_network ::
  "engine \<Rightarrow> conv_net \<Rightarrow> nat list \<Rightarrow> nat \<Rightarrow> error + conv_net" where
  "build_network eng self input_shape output_size =
     and_then (case cls self of
                 StandardConvNet \<Rightarrow> scn_build_network eng (params self) input_shape output_size
               | ResNet \<Rightarrow> res_build_network eng (params self) input_shape output_size)
       (\<lambda>m. Inr (self\<lparr>model := Some m\<rparr>))"

definition compile_model :: "conv_net \<Rightarrow> error + conv_net" where
  "compile_model self =
     (let opt = (if optimizer (params self) = ''adam'' then ''Adam'' else ''SGD'')
      in case model self of
           None \<Rightarrow> Inl AttributeError
         | Some m \<Rightarrow> Inr (self\<lparr>model := Some (m\<lparr>m_optimizer := Some opt\<rparr>)\<rparr>))"

text \<open>\<^verbatim>\<open>get_data_shapes\<close>, on the shapes of the two arrays.\<close>

definition get_data_shapes :: "nat list \<Rightarrow> nat list \<Rightarrow> error + (nat list \<times> nat)" where
  "get_data_shapes x_shape y_shape =
     (if length x_shape \<noteq> 4 then Inl ValueError
      else if length y_shape = 1 then Inr (tl x_shape, 1)
      else if length y_shape < 2 then Inl IndexError
      else Inr (tl x_shape, y_shape ! 1))"

text \<open>
  What the drivers do to the world outside the network object: the random seeds, the
  session, the stack of device scopes, the training calls that completed and the files
  written.
\<close>

record fit_call =
  fitted :: kmodel
  fit_batch_size :: int
  fit_epochs :: int
  fit_devices :: "string list"

record world =
  np_seed :: "int option"
  tf_seed :: "int option"
  floatx :: string
  session_open :: bool
  device_scopes :: "string list"
  fit_calls :: "fit_call list"
  saved :: "(string \<times> kmodel) list"


text \<open>\<^verbatim>\<open>self.model.fit(x, y, batch_size=self.batch_size, epochs=self.epochs, ...)\<close>\<close>

definition model_fit :: "engine \<Rightarrow> conv_net \<Rightarrow> world \<Rightarrow> (error + conv_net) \<times> world" where
  "model_fit eng self w =
     (case model self of
        None \<Rightarrow> (Inl AttributeError, w)
      | Some m \<Rightarrow>
          if fit_raises eng then (Inl EngineError, w)
          else (Inr self,
                w\<lparr>fit_calls := fit_calls w @
                     [\<lparr> fitted = m, fit_batch_size = batch_size (params self),
                        fit_epochs = epochs (params self), fit_devices = device_scopes w \<rparr>]\<rparr>))"

text \<open>\<^verbatim>\<open>StandardConvNet.fit\<close> (inherited by \<^verbatim>\<open>ResNet\<close>), with its parameter \<^verbatim>\<open>build\<close>.\<close>

definition fit ::
  "engine \<Rightarrow> conv_net \<Rightarrow> nat list \<Rightarrow> nat list \<Rightarrow> bool \<Rightarrow> world \<Rightarrow> (error + conv_net) \<times> world" where
  "fit eng self x_shape y_shape build w =
     (case (if build
            then and_then (get_data_shapes x_shape y_shape) (\<lambda>(xs, y_size).
                 and_then (build_network eng self xs y_size) compile_model)
            else Inr self) of
        Inl e \<Rightarrow> (Inl e, w)
      | Inr self' \<Rightarrow> model_fit eng self' w)"

text \<open>\<^verbatim>\<open>with K.tf.device(d): body\<close>: the scope is left on every exit of the body.\<close>

definition with_device ::
  "string \<Rightarrow> (world \<Rightarrow> (error + 'a) \<times> world) \<Rightarrow> world \<Rightarrow> (error + 'a) \<times> world" where
  "with_device d body w =
     (case body (w\<lparr>device_scopes := d # device_scopes w\<rparr>) of
        (r, w') \<Rightarrow> (r, w'\<lparr>device_scopes := tl (device_scopes w')\<rparr>))"

text \<open>\<^verbatim>\<open>np.random.seed\<close> accepts the integers from \<open>0\<close> to \<open>2\<^sup>3\<^sup>2 - 1\<close> and raises on the others.\<close>

definition valid_seed :: "int \<Rightarrow> bool" where
  "valid_seed seed \<longleftrightarrow> 0 \<le> seed \<and> seed < 2 ^ 32"

definition train_conv_net_cpu ::
  "engine \<Rightarrow> nat list \<Rightarrow> nat list \<Rightarrow> hyperparameters \<Rightarrow> int \<Rightarrow> int \<Rightarrow> world
     \<Rightarrow> (error + unit) \<times> world" where
  "train_conv_net_cpu eng train_data train_labels conv_net_hyperparameters num_processors seed w =
     (if \<not> valid_seed seed then (Inl ValueError, w)
      else
      let w1 = w\<lparr>np_seed := Some seed, tf_seed := Some seed\<rparr>;
          w2 = w1\<lparr>session_open := True\<rparr>
      in case with_device ''/cpu:0''
                (fit eng (new_net StandardConvNet conv_net_hyperparameters)
                     train_data train_labels True) w2 of
           (Inl e, w3) \<Rightarrow> (Inl e, w3)
         | (Inr scn, w3) \<Rightarrow> (Inr (), w3\<lparr>session_open := False\<rparr>))"

text \<open>\<^verbatim>\<open>multi_gpu_model(model, gpus=n, ...)\<close>: a new, uncompiled model over \<open>n\<close> devices.\<close>

definition multi_gpu_model :: "engine \<Rightarrow> kmodel \<Rightarrow> int \<Rightarrow> error + kmodel" where
  "multi_gpu_model eng m n =
     (if replicate_raises eng then Inl EngineError
      else Inr (m\<lparr>m_gpus := Some n, m_optimizer := None\<rparr>))"

definition save_model :: "engine \<Rightarrow> kmodel \<Rightarrow> string \<Rightarrow> world \<Rightarrow> (error + unit) \<times> world" where
  "save_model eng m path w =
     (if save_raises eng then (Inl EngineError, w)
      else (Inr (), w\<lparr>saved := saved w @ [(path, m)]\<rparr>))"

text \<open>The three branches on \<^verbatim>\<open>num_gpus\<close>; the result is the value of \<^verbatim>\<open>scn\<close> afterwards.\<close>

definition gpu_branches ::
  "engine \<Rightarrow> nat list \<Rightarrow> nat list \<Rightarrow> hyperparameters \<Rightarrow> int \<Rightarrow> world
     \<Rightarrow> (error + conv_net option) \<times> world" where
  "gpu_branches eng train_data train_labels conv_net_hyperparameters num_gpus w =
     (if num_gpus = 1 then
        (case with_device ''/gpu:0''
                (fit eng (new_net ResNet conv_net_hyperparameters)
                     train_data train_labels True) w of
           (Inl e, w') \<Rightarrow> (Inl e, w')
         | (Inr scn, w') \<Rightarrow> (Inr (Some scn), w'))
      else if num_gpus > 1 then
        (let scn0 = new_net ResNet conv_net_hyperparameters;
             scn1 = scn0\<lparr>params := (params scn0)\<lparr>batch_size := batch_size (params scn0) * num_gpus\<rparr>\<rparr>
         in case and_then (get_data_shapes train_data train_labels) (\<lambda>(x_shape, y_size).
                 and_then (build_network eng scn1 x_shape y_size) (\<lambda>scn2.
                 and_then (case model scn2 of None \<Rightarrow> Inl AttributeError
                           | Some m \<Rightarrow> multi_gpu_model eng m num_gpus) (\<lambda>pm.
                 compile_model (scn2\<lparr>model := Some pm\<rparr>)))) of
              Inl e \<Rightarrow> (Inl e, w)
            | Inr scn3 \<Rightarrow>
                (case fit eng scn3 train_data train_labels True w of
                   (Inl e, w') \<Rightarrow> (Inl e, w')
                 | (Inr scn4, w') \<Rightarrow> (Inr (Some scn4), w')))
      else (Inr None, w))"

definition valid_floatx :: "string \<Rightarrow> bool" where
  "valid_floatx d \<longleftrightarrow> d = ''float16'' \<or> d = ''float32'' \<or> d = ''float64''"

definition train_conv_net_gpu ::
  "engine \<Rightarrow> nat list \<Rightarrow> nat list \<Rightarrow> hyperparameters \<Rightarrow> int \<Rightarrow> int \<Rightarrow> string \<Rightarrow> world
     \<Rightarrow> (error + unit) \<times> world" where
  "train_conv_net_gpu eng train_data train_labels conv_net_hyperparameters num_gpus seed dtype w =
     (if \<not> valid_seed seed then (Inl ValueError, w)
      else
      let w1 = w\<lparr>np_seed := Some seed\<rparr>;
          w2 = w1\<lparr>session_open := True\<rparr>;
          w3 = w2\<lparr>tf_seed := Some seed\<rparr>
      in if \<not> valid_floatx dtype then (Inl ValueError, w3)
         else
           (case gpu_branches eng train_data train_labels conv_net_hyperparameters num_gpus
                   (w3\<lparr>floatx := dtype\<rparr>) of
              (Inl e, w4) \<Rightarrow> (Inl e, w4)
            | (Inr None, w4) \<Rightarrow> (Inr (), w4\<lparr>session_open := False\<rparr>)
            | (Inr (Some scn), w4) \<Rightarrow>
                (case model scn of
                   None \<Rightarrow> (Inl AttributeError, w4)
                 | Some m \<Rightarrow>
                     (case save_model eng m
                             (''goes16_resnet_gpus_'' @ format_02d num_gpus @ ''.h5'') w4 of
                        (Inl e, w5) \<Rightarrow> (Inl e, w5)
                      | (Inr u, w5) \<Rightarrow> (Inr (), w5\<lparr>session_open := False\<rparr>)))))"

text \<open>A world before any driver ran, and libraries that round correctly and never fail.\<close>

definition initial_world :: world where
  "initial_world =
     \<lparr> np_seed = None, tf_seed = None, floatx = ''float32'', session_open = False,
       device_scopes = [], fit_calls = [], saved = [] \<rparr>"

definition working_engine :: engine where
  "working_engine =
     \<lparr> np_log2 = log2_nearest, fit_raises = False, replicate_raises = False,
       save_raises = False \<rparr>"

section \<open>Properties\<close>

subsection \<open>Auxiliary facts\<close>

lemma log2_nearest_code [code]:
  "log2_nearest n =
     (case round_double (of_int n) of
        Finite q \<Rightarrow>
          if q < 0 then NaN
          else if q = 0 then NegInf
          else if q = pow2 (ilog2 q) then Finite (of_int (ilog2 q))
          else Code.abort (STR ''log2_nearest'') (\<lambda>_. log2_nearest n)
      | PosInf \<Rightarrow> PosInf
      | NegInf \<Rightarrow> NaN
      | NaN \<Rightarrow> NaN)"
  by (simp add: log2_nearest_def split: pyfloat.splits)

lemma and_then_Inr: "and_then m f = Inr y \<longleftrightarrow> (\<exists>x. m = Inr x \<and> f x = Inr y)"
  by (cases m) (auto simp: and_then_def)

lemma and_then_simps [simp]: "and_then (Inr x) f = f x" "and_then (Inl e) f = Inl e"
  by (simp_all add: and_then_def)

lemma and_then_weak_cong: "m = m' \<Longrightarrow> and_then m f = and_then m' f"
  by simp

lemma pow2_nat_eq: "pow2_nat n = 2 ^ n"
proof (induction n rule: pow2_nat.induct)
  case (1 n)
  show ?case
  proof (cases "n = 0")
    case True
    then show ?thesis by (subst pow2_nat.simps) simp
  next
    case False
    have n: "n = 2 * (n div 2) + n mod 2" by simp
    from False 1 have ih: "pow2_nat (n div 2) = 2 ^ (n div 2)" by simp
    show ?thesis
    proof (cases "even n")
      case True
      then have "n = (n div 2) + (n div 2)" by presburger
      then have "(2::rat) ^ n = 2 ^ (n div 2) * 2 ^ (n div 2)"
        by (metis power_add)
      with False True ih show ?thesis by (subst pow2_nat.simps) (simp add: Let_def)
    next
      case odd: False
      then have "n = Suc ((n div 2) + (n div 2))" by presburger
      then have "(2::rat) ^ n = 2 * (2 ^ (n div 2) * 2 ^ (n div 2))"
        by (metis power_Suc power_add)
      with False odd ih show ?thesis by (subst pow2_nat.simps) (simp add: Let_def)
    qed
  qed
qed

lemma pow2_pos: "0 < pow2 e"
  by (simp add: pow2_def pow2_nat_eq)

lemma round_half_even_nonneg: "0 \<le> q \<Longrightarrow> 0 \<le> round_half_even q"
  by (auto simp: round_half_even_def Let_def)

lemma round_double_nonneg:
  assumes "0 \<le> q" "round_double q = Finite c"
  shows "0 \<le> c"
proof (cases "q = 0")
  case True
  with assms show ?thesis by (simp add: round_double_def)
next
  case False
  with assms(1) have q: "0 < q" by simp
  define e where "e = max (ilog2 \<bar>q\<bar>) (- 1022)"
  have "0 \<le> \<bar>q\<bar> / pow2 (e - 52)" using pow2_pos[of "e - 52"] by simp
  then have "0 \<le> round_half_even (\<bar>q\<bar> / pow2 (e - 52))" by (rule round_half_even_nonneg)
  then have "0 \<le> rat_of_int (round_half_even (\<bar>q\<bar> / pow2 (e - 52))) * pow2 (e - 52)"
    using pow2_pos[of "e - 52"] by simp
  with assms(2) q show ?thesis
    by (auto simp: round_double_def Let_def e_def split: if_splits)
qed

lemma truncate_nonneg: "0 \<le> q \<Longrightarrow> rat_truncate q = \<lfloor>q\<rfloor>"
  by (simp add: rat_truncate_def)

text \<open>For a non-negative count and rate, \<^verbatim>\<open>int\<close> of the product is its floor.\<close>

lemma next_filters_floor:
  assumes "next_filters nf r = Inr nf'" "0 \<le> nf" "number_nonneg r"
  shows "floor_product nf r = Some nf'"
proof (cases r)
  case (PyInt x)
  with assms(1) show ?thesis by (simp add: next_filters_def floor_product_def)
next
  case (PyFloat x)
  with assms(1) obtain a where a: "int_to_float nf = Inr a" and
    p: "py_int (PyFloat (float_mul a x)) = Inr nf'"
    by (auto simp: next_filters_def and_then_Inr)
  from a obtain qa where qa: "a = Finite qa" "round_double (of_int nf) = Finite qa"
    by (cases "round_double (rat_of_int nf)") (auto simp: int_to_float_def)
  with assms(2) round_double_nonneg[of "of_int nf" qa] have qa0: "0 \<le> qa" by simp
  from p obtain c where c: "float_mul a x = Finite c" "nf' = rat_truncate c"
    by (cases "float_mul a x") auto
  have "0 \<le> c"
  proof (cases x)
    case (Finite b)
    with assms(3) PyFloat have "0 \<le> b" by (simp add: number_nonneg_def)
    with qa0 have "0 \<le> qa * b" by simp
    with c(1) qa(1) Finite round_double_nonneg[of "qa * b" c] show ?thesis by simp
  next
    case PosInf
    with c(1) qa(1) show ?thesis by (simp split: if_splits)
  next
    case NegInf
    with assms(3) PyFloat show ?thesis by (simp add: number_nonneg_def)
  next
    case NaN
    with c(1) qa(1) show ?thesis by simp
  qed
  with c a PyFloat show ?thesis
    by (simp add: floor_product_def truncate_nonneg)
qed

lemma call_layer_Inr:
  "call_layer l ins g = Inr (t, g') \<longleftrightarrow>
     layer_shape l (map tshape ins) = Inr (tshape t) \<and> tid t = length g \<and>
     g' = g @ [\<lparr> nlayer = l, inbound = map tid ins, nshape = tshape t \<rparr>]"
  by (cases t) (auto simp: call_layer_def and_then_Inr)

lemma conv2d_nonneg: "conv2d_shape f k df s = Inr s' \<Longrightarrow> 0 \<le> f"
  by (auto simp: conv2d_shape_def and_then_Inr split: if_splits)

lemma layer_shape_conv_nonneg: "layer_shape (Conv2D f w df nm) ss = Inr s \<Longrightarrow> 0 \<le> f"
  by (cases "(Conv2D f w df nm, ss)" rule: layer_shape.cases) (auto dest: conv2d_nonneg)

lemma call_layer_filters:
  "call_layer l ins g = Inr (t, g') \<Longrightarrow>
   conv_filters g' = conv_filters g @ (case l of Conv2D f _ _ (Some _) \<Rightarrow> [f] | _ \<Rightarrow> []) \<and>
   (case l of Conv2D f _ _ _ \<Rightarrow> 0 \<le> f | _ \<Rightarrow> True)"
  by (cases l) (auto simp: call_layer_Inr conv_filters_def dest: layer_shape_conv_nonneg)

lemma hidden_layer_not_conv:
  "(case hidden_layer hp nm of Conv2D f _ _ (Some _) \<Rightarrow> [f] | _ \<Rightarrow> []) = []"
  by (simp add: hidden_layer_def)

lemma pooling_layer_not_conv:
  "(case pooling_layer hp nm of Conv2D f _ _ (Some _) \<Rightarrow> [f] | _ \<Rightarrow> []) = []"
  by (simp add: pooling_layer_def)

lemma grows_by_Cons:
  "grows_by r (x # fs) \<longleftrightarrow> (fs = [] \<or> (floor_product x r = Some (hd fs) \<and> grows_by r fs))"
  by (cases fs) simp_all

lemma scn_stages_filters:
  "scn_stages hp c n nf t g = Inr (t', g') \<Longrightarrow> number_nonneg (filter_growth_rate hp) \<Longrightarrow>
   \<exists>fs. conv_filters g' = conv_filters g @ fs \<and> length fs = n \<and>
        (fs \<noteq> [] \<longrightarrow> hd fs = nf) \<and> grows_by (filter_growth_rate hp) fs"
proof (induction n arbitrary: c nf t g)
  case 0
  then show ?case by simp
next
  case (Suc n)
  let ?r = "filter_growth_rate hp"
  from Suc.prems(1) obtain t1 g1 t2 g2 nf' t3 g3 where
    c1: "call_layer (Conv2D nf (filter_width hp) (data_format hp)
           (Some (''conv_'' @ format_02d (int c)))) [t] g = Inr (t1, g1)" and
    c2: "call_layer (hidden_layer hp (''hidden_activation_'' @ format_02d (int c))) [t1] g1
           = Inr (t2, g2)" and
    nx: "next_filters nf ?r = Inr nf'" and
    c3: "call_layer (pooling_layer hp (''pooling_'' @ format_02d (int c))) [t2] g2 = Inr (t3, g3)" and
    rest: "scn_stages hp (Suc c) n nf' t3 g3 = Inr (t', g')"
    by (auto simp: and_then_Inr)
  from call_layer_filters[OF c1] have g1: "conv_filters g1 = conv_filters g @ [nf]" and nf0: "0 \<le> nf"
    by simp_all
  from call_layer_filters[OF c2] have g2: "conv_filters g2 = conv_filters g1"
    by (simp add: hidden_layer_not_conv)
  from call_layer_filters[OF c3] have g3: "conv_filters g3 = conv_filters g2"
    by (simp add: pooling_layer_not_conv)
  from Suc.IH[OF rest Suc.prems(2)] obtain fs where
    fs: "conv_filters g' = conv_filters g3 @ fs" "length fs = n"
        "fs \<noteq> [] \<longrightarrow> hd fs = nf'" "grows_by ?r fs"
    by blast
  from next_filters_floor[OF nx nf0 Suc.prems(2)] fs(3,4)
  have "grows_by ?r (nf # fs)" by (auto simp: grows_by_Cons)
  with fs(1,2) g1 g2 g3 show ?case
    by (intro exI[of _ "nf # fs"]) simp
qed

lemma res_block_filters:
  assumes "residual_block hp nf t c g = Inr (t', g')"
  shows "conv_filters g' = conv_filters g @ [nf, nf] \<and> 0 \<le> nf"
  using assms unfolding residual_block_def Let_def
  by (auto simp: and_then_Inr hidden_layer_not_conv
           dest!: call_layer_filters split: if_splits)

lemma res_stages_filters:
  "res_stages hp c n nf t g = Inr (t', g') \<Longrightarrow> number_nonneg (filter_growth_rate hp) \<Longrightarrow>
   \<exists>fs. conv_filters g' = conv_filters g @ concat (map (\<lambda>f. [f, f]) fs) \<and> length fs = n \<and>
        (fs \<noteq> [] \<longrightarrow> hd fs = nf) \<and> grows_by (filter_growth_rate hp) fs"
proof (induction n arbitrary: c nf t g)
  case 0
  then show ?case by simp
next
  case (Suc n)
  let ?r = "filter_growth_rate hp"
  from Suc.prems(1) obtain t1 g1 nf' t2 g2 where
    b: "residual_block hp nf t c g = Inr (t1, g1)" and
    nx: "next_filters nf ?r = Inr nf'" and
    p: "call_layer (pooling_layer hp (''pooling_'' @ format_02d (int c))) [t1] g1 = Inr (t2, g2)" and
    rest: "res_stages hp (Suc c) n nf' t2 g2 = Inr (t', g')"
    by (auto simp: and_then_Inr)
  from res_block_filters[OF b] have g1: "conv_filters g1 = conv_filters g @ [nf, nf]"
    and nf0: "0 \<le> nf" by simp_all
  from call_layer_filters[OF p] have g2: "conv_filters g2 = conv_filters g1"
    by (simp add: pooling_layer_not_conv)
  from Suc.IH[OF rest Suc.prems(2)] obtain fs where
    fs: "conv_filters g' = conv_filters g2 @ concat (map (\<lambda>f. [f, f]) fs)" "length fs = n"
        "fs \<noteq> [] \<longrightarrow> hd fs = nf'" "grows_by ?r fs"
    by blast
  from next_filters_floor[OF nx nf0 Suc.prems(2)] fs(3,4)
  have "grows_by ?r (nf # fs)" by (auto simp: grows_by_Cons)
  with fs(1,2) g1 g2 show ?case
    by (intro exI[of _ "nf # fs"]) simp
qed

lemma network_tail_filters:
  "network_tail hp n t g = Inr (t', g') \<Longrightarrow> conv_filters g' = conv_filters g"
  unfolding network_tail_def
  by (auto simp: and_then_Inr call_layer_Inr conv_filters_def split: if_splits)

text \<open>Unfolding of the loops at a numeral, for evaluation.\<close>

lemma scn_stages_unfold:
  "scn_stages hp c n nf t g =
     (if n = 0 then Inr (t, g)
      else
        and_then (call_layer (Conv2D nf (filter_width hp) (data_format hp)
                                (Some (''conv_'' @ format_02d (int c)))) [t] g) (\<lambda>(t1, g1).
        and_then (call_layer (hidden_layer hp (''hidden_activation_'' @ format_02d (int c)))
                    [t1] g1) (\<lambda>(t2, g2).
        and_then (next_filters nf (filter_growth_rate hp)) (\<lambda>nf'.
        and_then (call_layer (pooling_layer hp (''pooling_'' @ format_02d (int c))) [t2] g2)
          (\<lambda>(t3, g3).
        scn_stages hp (Suc c) (n - 1) nf' t3 g3)))))"
  by (cases n) simp_all

lemma res_stages_unfold:
  "res_stages hp c n nf t g =
     (if n = 0 then Inr (t, g)
      else
        and_then (residual_block hp nf t c g) (\<lambda>(t1, g1).
        and_then (next_filters nf (filter_growth_rate hp)) (\<lambda>nf'.
        and_then (call_layer (pooling_layer hp (''pooling_'' @ format_02d (int c))) [t1] g1)
          (\<lambda>(t2, g2).
        res_stages hp (Suc c) (n - 1) nf' t2 g2))))"
  by (cases n) simp_all

lemma next_filters_int: "next_filters n (PyInt r) = Inr (n * r)"
  by (simp add: next_filters_def)

lemmas build_eval =
  scn_build_network_def res_build_network_def scn_stages_unfold res_stages_unfold
  residual_block_def network_tail_def call_layer_def new_model_def last_dim_def
  hidden_layer_def pooling_layer_def conv2d_shape_def pool2d_shape_def
  normalize_data_format_def lower_def lower_char_def next_filters_int
  default_hyperparameters_def conv_filters_def Let_def

subsection \<open>C3: the filter-count sequence\<close>

text \<open>
  Claim C3.  In every network that is built with a non-negative growth rate, the filter
  counts of the stages start at \<open>min_filters\<close>, and each next count is the floor of the
  previous count times the growth rate, the product being the one the program computes
  (exact for an integer rate, rounded to binary64 for a float rate) and the floor being
  taken after every multiplication.  The plain network carries the count of a stage in
  its one named convolution, the residual network in its two.  There are as many counts
  as the depth computation gives stages.  For \<open>min_filters = 16\<close> and growth rate \<open>2\<close> the
  first four counts are 16, 32, 64, 128.
\<close>

theorem filter_count_sequence:
  "(number_nonneg (filter_growth_rate hp) \<longrightarrow>
      (\<forall>m. scn_build_network eng hp input_shape output_size = Inr m \<longrightarrow>
         (conv_filters (m_graph m) \<noteq> [] \<longrightarrow> hd (conv_filters (m_graph m)) = min_filters hp) \<and>
         grows_by (filter_growth_rate hp) (conv_filters (m_graph m)) \<and>
         (\<forall>k. num_conv_layers eng (input_shape ! 1) (min_data_width hp) = Inr k \<longrightarrow>
              length (conv_filters (m_graph m)) = nat k)) \<and>
      (\<forall>m. res_build_network eng hp input_shape output_size = Inr m \<longrightarrow>
         (\<exists>fs. conv_filters (m_graph m) = concat (map (\<lambda>f. [f, f]) fs) \<and>
               (fs \<noteq> [] \<longrightarrow> hd fs = min_filters hp) \<and>
               grows_by (filter_growth_rate hp) fs \<and>
               (\<forall>k. num_conv_layers eng (input_shape ! 1) (min_data_width hp) = Inr k \<longrightarrow>
                    length fs = nat k)))) \<and>
   grows_by (PyInt 2) [16, 32, 64, 128]"
proof -
  let ?r = "filter_growth_rate hp"
  have c: "grows_by (PyInt 2) [16, 32, 64, 128]"
    by (simp add: floor_product_def)
  have a: "(conv_filters (m_graph m) \<noteq> [] \<longrightarrow> hd (conv_filters (m_graph m)) = min_filters hp) \<and>
         grows_by ?r (conv_filters (m_graph m)) \<and>
         (\<forall>k. num_conv_layers eng (input_shape ! 1) (min_data_width hp) = Inr k \<longrightarrow>
              length (conv_filters (m_graph m)) = nat k)"
    if nn: "number_nonneg ?r" and b: "scn_build_network eng hp input_shape output_size = Inr m"
    for m
  proof -
    from b obtain i g0 k t g out g' where
      i: "call_layer (Input input_shape ''scn_input'') [] [] = Inr (i, g0)" and
      k: "num_conv_layers eng (input_shape ! 1) (min_data_width hp) = Inr k" and
      st: "scn_stages hp 0 (nat k) (min_filters hp) i g0 = Inr (t, g)" and
      tl: "network_tail hp output_size t g = Inr (out, g')" and
      m: "m = new_model i out g'"
      unfolding scn_build_network_def by (auto simp: and_then_Inr split: if_splits)
    have g0: "conv_filters g0 = []" using i by (auto simp: call_layer_Inr conv_filters_def)
    from scn_stages_filters[OF st nn] obtain fs where
      "conv_filters g = conv_filters g0 @ fs" "length fs = nat k"
      "fs \<noteq> [] \<longrightarrow> hd fs = min_filters hp" "grows_by ?r fs"
      by blast
    with g0 network_tail_filters[OF tl] m k show ?thesis by (simp add: new_model_def)
  qed
  have b: "\<exists>fs. conv_filters (m_graph m) = concat (map (\<lambda>f. [f, f]) fs) \<and>
               (fs \<noteq> [] \<longrightarrow> hd fs = min_filters hp) \<and> grows_by ?r fs \<and>
               (\<forall>k. num_conv_layers eng (input_shape ! 1) (min_data_width hp) = Inr k \<longrightarrow>
                    length fs = nat k)"
    if nn: "number_nonneg ?r" and b: "res_build_network eng hp input_shape output_size = Inr m"
    for m
  proof -
    from b obtain i g0 k t g out g' where
      i: "call_layer (Input input_shape ''scn_input'') [] [] = Inr (i, g0)" and
      k: "num_conv_layers eng (input_shape ! 1) (min_data_width hp) = Inr k" and
      st: "res_stages hp 0 (nat k) (min_filters hp) i g0 = Inr (t, g)" and
      tl: "network_tail hp output_size t g = Inr (out, g')" and
      m: "m = new_model i out g'"
      unfolding res_build_network_def by (auto simp: and_then_Inr split: if_splits)
    have g0: "conv_filters g0 = []" using i by (auto simp: call_layer_Inr conv_filters_def)
    from res_stages_filters[OF st nn] obtain fs where
      "conv_filters g = conv_filters g0 @ concat (map (\<lambda>f. [f, f]) fs)" "length fs = nat k"
      "fs \<noteq> [] \<longrightarrow> hd fs = min_filters hp" "grows_by ?r fs"
      by blast
    with g0 network_tail_filters[OF tl] m k show ?thesis
      by (intro exI[of _ fs]) (simp add: new_model_def)
  qed
  from a b c show ?thesis by blast
qed

theorem filter_count_sequence_witness:
  "(\<exists>m. scn_build_network working_engine default_hyperparameters [1, 64, 64] 1 = Inr m \<and>
        conv_filters (m_graph m) = [16, 32, 64, 128] \<and>
        grows_by (PyInt 2) (conv_filters (m_graph m))) \<and>
   (\<exists>m. res_build_network working_engine default_hyperparameters [3, 32, 32] 1 = Inr m \<and>
        conv_filters (m_graph m) = [16, 16, 32, 32, 64, 64] \<and>
        (\<exists>fs. conv_filters (m_graph m) = concat (map (\<lambda>f. [f, f]) fs) \<and>
              grows_by (PyInt 2) fs)) \<and>
   (\<exists>m. scn_build_network working_engine
          (default_hyperparameters\<lparr>min_filters := 100,
             filter_growth_rate := PyFloat (round_double (115 / 100))\<rparr>) [1, 32, 32] 1 = Inr m \<and>
        conv_filters (m_graph m) = [100, 114, 131] \<and>
        grows_by (PyFloat (round_double (115 / 100))) (conv_filters (m_graph m)))"
proof -
  let ?hp = default_hyperparameters
  define rate where "rate = PyFloat (round_double (115 / 100))"
  let ?hf = "default_hyperparameters\<lparr>min_filters := 100, filter_growth_rate := rate\<rparr>"
  have r: "number_nonneg (filter_growth_rate ?hp)"
    by (simp add: default_hyperparameters_def number_nonneg_def)
  have rf: "number_nonneg rate"
    unfolding rate_def by code_simp
  have n64: "num_conv_layers working_engine 64 4 = Inr 4" by code_simp
  have n32: "num_conv_layers working_engine 32 4 = Inr 3" by code_simp
  have x1: "next_filters 100 rate = Inr 114" unfolding rate_def by code_simp
  have x2: "next_filters 114 rate = Inr 131" unfolding rate_def by code_simp
  have x3: "next_filters 131 rate = Inr 150" unfolding rate_def by code_simp
  have s1: "map_sum id (\<lambda>m. conv_filters (m_graph m))
              (scn_build_network working_engine ?hp [1, 64, 64] 1) = Inr [16, 32, 64, 128]"
    by (simp add: build_eval n64 cong: and_then_weak_cong)
  have s2: "map_sum id (\<lambda>m. conv_filters (m_graph m))
              (res_build_network working_engine ?hp [3, 32, 32] 1) = Inr [16, 16, 32, 32, 64, 64]"
    by (simp add: build_eval n32 cong: and_then_weak_cong)
  have s3: "map_sum id (\<lambda>m. conv_filters (m_graph m))
              (scn_build_network working_engine ?hf [1, 32, 32] 1) = Inr [100, 114, 131]"
    by (simp add: build_eval n32 x1 x2 x3 cong: and_then_weak_cong)
  from s1 obtain m1 where m1: "scn_build_network working_engine ?hp [1, 64, 64] 1 = Inr m1"
    "conv_filters (m_graph m1) = [16, 32, 64, 128]"
    by (cases "scn_build_network working_engine ?hp [1, 64, 64] 1") auto
  from s2 obtain m2 where m2: "res_build_network working_engine ?hp [3, 32, 32] 1 = Inr m2"
    "conv_filters (m_graph m2) = [16, 16, 32, 32, 64, 64]"
    by (cases "res_build_network working_engine ?hp [3, 32, 32] 1") auto
  from s3 obtain m3 where m3: "scn_build_network working_engine ?hf [1, 32, 32] 1 = Inr m3"
    "conv_filters (m_graph m3) = [100, 114, 131]"
    by (cases "scn_build_network working_engine ?hf [1, 32, 32] 1") auto
  have g2: "filter_growth_rate ?hp = PyInt 2" "filter_growth_rate ?hf = rate"
    by (simp_all add: default_hyperparameters_def)
  from filter_count_sequence[of ?hp working_engine "[1, 64, 64]" 1] r m1(1)
  have "grows_by (PyInt 2) (conv_filters (m_graph m1))" unfolding g2 by blast
  moreover from filter_count_sequence[of ?hp working_engine "[3, 32, 32]" 1] r m2(1)
  have "\<exists>fs. conv_filters (m_graph m2) = concat (map (\<lambda>f. [f, f]) fs) \<and> grows_by (PyInt 2) fs"
    unfolding g2 by blast
  moreover from filter_count_sequence[of ?hf working_engine "[1, 32, 32]" 1] rf m3(1)
  have "grows_by rate (conv_filters (m_graph m3))"
    unfolding g2 by blast
  ultimately show ?thesis using m1 m2 m3 unfolding rate_def by blast
qed

subsection \<open>Facts about training and the drivers\<close>

lemma scn_build_gpus: "scn_build_network eng h s n = Inr m \<Longrightarrow> m_gpus m = None"
  by (auto simp: scn_build_network_def and_then_Inr new_model_def split: if_splits)

lemma res_build_gpus: "res_build_network eng h s n = Inr m \<Longrightarrow> m_gpus m = None"
  by (auto simp: res_build_network_def and_then_Inr new_model_def split: if_splits)

text \<open>The part of \<open>fit\<close> guarded by \<open>build\<close>.\<close>

lemma build_network_Inr:
  assumes "build_network eng self xs n = Inr s"
  shows "\<exists>m. s = self\<lparr>model := Some m\<rparr> \<and> m_gpus m = None"
proof (cases "cls self")
  case StandardConvNet
  with assms show ?thesis
    by (auto simp: build_network_def and_then_Inr intro: scn_build_gpus)
next
  case ResNet
  with assms show ?thesis
    by (auto simp: build_network_def and_then_Inr intro: res_build_gpus)
qed

lemma prepare_Inr:
  assumes "and_then (get_data_shapes x y) (\<lambda>(xs, y_size).
             and_then (build_network eng self xs y_size) compile_model) = Inr self'"
  shows "\<exists>m. model self' = Some m \<and> m_gpus m = None \<and> params self' = params self"
proof -
  from assms obtain xs n s where b: "build_network eng self xs n = Inr s"
    and c: "compile_model s = Inr self'"
    by (auto simp: and_then_Inr)
  from build_network_Inr[OF b] obtain m where "s = self\<lparr>model := Some m\<rparr>" "m_gpus m = None"
    by blast
  with c show ?thesis by (auto simp: compile_model_def Let_def)
qed

lemma fit_build_Inr:
  assumes "fit eng self x y True w = (Inr self', w')"
  shows "\<exists>m. model self' = Some m \<and> m_gpus m = None \<and> params self' = params self \<and>
             w' = w\<lparr>fit_calls := fit_calls w @
                   [\<lparr> fitted = m, fit_batch_size = batch_size (params self),
                      fit_epochs = epochs (params self), fit_devices = device_scopes w \<rparr>]\<rparr>"
proof -
  from assms obtain s where
    p: "and_then (get_data_shapes x y) (\<lambda>(xs, y_size).
             and_then (build_network eng self xs y_size) compile_model) = Inr s" and
    f: "model_fit eng s w = (Inr self', w')"
    by (auto simp: fit_def split: sum.splits)
  from prepare_Inr[OF p] obtain m where m: "model s = Some m" "m_gpus m = None" "params s = params self"
    by blast
  with f show ?thesis by (auto simp: model_fit_def split: if_splits)
qed

lemma fit_Inl: "fit eng self x y b w = (Inl e, w') \<Longrightarrow> w' = w"
  by (auto simp: fit_def model_fit_def split: sum.splits option.splits if_splits)

lemma fit_frame:
  assumes "fit eng self x y b w = (r, w')"
  shows "session_open w' = session_open w \<and> device_scopes w' = device_scopes w \<and>
         saved w' = saved w"
  using assms
  by (auto simp: fit_def model_fit_def split: sum.splits option.splits if_splits)

lemma with_device_fit_Inl:
  assumes "with_device d (fit eng self x y b) w = (Inl e, w')"
  shows "w' = w"
proof -
  obtain r w1 where f: "fit eng self x y b (w\<lparr>device_scopes := d # device_scopes w\<rparr>) = (r, w1)"
    by (cases "fit eng self x y b (w\<lparr>device_scopes := d # device_scopes w\<rparr>)")
  with assms have "r = Inl e" and w': "w' = w1\<lparr>device_scopes := tl (device_scopes w1)\<rparr>"
    by (auto simp: with_device_def)
  with f fit_Inl[of eng self x y b _ e w1] have "w1 = w\<lparr>device_scopes := d # device_scopes w\<rparr>"
    by simp
  with w' show ?thesis by simp
qed

lemma with_device_fit_Inr:
  assumes "with_device d (fit eng self x y True) w = (Inr self', w')"
  shows "\<exists>m. model self' = Some m \<and> m_gpus m = None \<and> params self' = params self \<and>
             w' = w\<lparr>fit_calls := fit_calls w @
                   [\<lparr> fitted = m, fit_batch_size = batch_size (params self),
                      fit_epochs = epochs (params self),
                      fit_devices = d # device_scopes w \<rparr>]\<rparr>"
proof -
  let ?w0 = "w\<lparr>device_scopes := d # device_scopes w\<rparr>"
  obtain r w1 where f: "fit eng self x y True ?w0 = (r, w1)"
    by (cases "fit eng self x y True ?w0")
  with assms have r: "r = Inr self'" and w': "w' = w1\<lparr>device_scopes := tl (device_scopes w1)\<rparr>"
    by (auto simp: with_device_def)
  from fit_build_Inr[OF f[unfolded r]] obtain m where
    m: "model self' = Some m" "m_gpus m = None" "params self' = params self" and
    w1: "w1 = ?w0\<lparr>fit_calls := fit_calls ?w0 @
                   [\<lparr> fitted = m, fit_batch_size = batch_size (params self),
                      fit_epochs = epochs (params self), fit_devices = device_scopes ?w0 \<rparr>]\<rparr>"
    by blast
  have "w' = w\<lparr>fit_calls := fit_calls w @
                   [\<lparr> fitted = m, fit_batch_size = batch_size (params self),
                      fit_epochs = epochs (params self),
                      fit_devices = d # device_scopes w \<rparr>]\<rparr>"
    unfolding w' w1 by simp
  with m show ?thesis by blast
qed

lemma gpu_branches_Inl:
  assumes "gpu_branches eng x y h n w = (Inl e, w')"
  shows "w' = w"
proof -
  consider "n = 1" | "n > 1" | "n < 1" by linarith
  then show ?thesis
  proof cases
    case 1
    with assms show ?thesis
      by (auto simp: gpu_branches_def split: prod.splits sum.splits dest: with_device_fit_Inl)
  next
    case 2
    with assms show ?thesis
      by (auto simp: gpu_branches_def Let_def split: prod.splits sum.splits dest: fit_Inl)
  next
    case 3
    with assms show ?thesis by (simp add: gpu_branches_def)
  qed
qed

lemma gpu_branches_Inr:
  assumes "gpu_branches eng x y h n w = (Inr r, w')"
  shows "(n < 1 \<and> r = None \<and> w' = w) \<or>
         (1 \<le> n \<and> (\<exists>scn m c. r = Some scn \<and> model scn = Some m \<and> m_gpus m = None \<and>
             fitted c = m \<and> fit_batch_size c = batch_size h * n \<and>
             w' = w\<lparr>fit_calls := fit_calls w @ [c]\<rparr>))"
proof -
  consider "n = 1" | "n > 1" | "n < 1" by linarith
  then show ?thesis
  proof cases
    case 1
    with assms obtain scn where r: "r = Some scn" and
      f: "with_device ''/gpu:0'' (fit eng (new_net ResNet h) x y True) w = (Inr scn, w')"
      by (auto simp: gpu_branches_def split: prod.splits sum.splits)
    from with_device_fit_Inr[OF f] obtain m where
      m: "model scn = Some m" "m_gpus m = None" and
      w': "w' = w\<lparr>fit_calls := fit_calls w @
                   [\<lparr> fitted = m, fit_batch_size = batch_size h, fit_epochs = epochs h,
                      fit_devices = ''/gpu:0'' # device_scopes w \<rparr>]\<rparr>"
      by (auto simp: new_net_def)
    let ?c = "\<lparr> fitted = m, fit_batch_size = batch_size h, fit_epochs = epochs h,
                fit_devices = ''/gpu:0'' # device_scopes w \<rparr>"
    have "fitted ?c = m \<and> fit_batch_size ?c = batch_size h * n \<and>
          w' = w\<lparr>fit_calls := fit_calls w @ [?c]\<rparr>"
      using 1 w' by simp
    with 1 r m show ?thesis by blast
  next
    case 2
    let ?scn1 = "(new_net ResNet h)\<lparr>params := (params (new_net ResNet h))
                    \<lparr>batch_size := batch_size (params (new_net ResNet h)) * n\<rparr>\<rparr>"
    from assms 2 obtain scn3 scn4 where r: "r = Some scn4" and
      f: "fit eng scn3 x y True w = (Inr scn4, w')" and
      p: "and_then (get_data_shapes x y) (\<lambda>(x_shape, y_size).
                 and_then (build_network eng ?scn1 x_shape y_size) (\<lambda>scn2.
                 and_then (case model scn2 of None \<Rightarrow> Inl AttributeError
                           | Some m \<Rightarrow> multi_gpu_model eng m n) (\<lambda>pm.
                 compile_model (scn2\<lparr>model := Some pm\<rparr>)))) = Inr scn3"
      by (auto simp: gpu_branches_def Let_def split: prod.splits sum.splits)
    from p have "params scn3 = params ?scn1"
      by (auto simp: and_then_Inr compile_model_def Let_def
               dest!: build_network_Inr split: option.splits)
    then have ps: "batch_size (params scn3) = batch_size h * n"
      by (simp add: new_net_def)
    from fit_build_Inr[OF f] obtain m where
      m: "model scn4 = Some m" "m_gpus m = None" and
      w': "w' = w\<lparr>fit_calls := fit_calls w @
                   [\<lparr> fitted = m, fit_batch_size = batch_size (params scn3),
                      fit_epochs = epochs (params scn3), fit_devices = device_scopes w \<rparr>]\<rparr>"
      by blast
    let ?c = "\<lparr> fitted = m, fit_batch_size = batch_size (params scn3),
                fit_epochs = epochs (params scn3), fit_devices = device_scopes w \<rparr>"
    have "fitted ?c = m \<and> fit_batch_size ?c = batch_size h * n \<and>
          w' = w\<lparr>fit_calls := fit_calls w @ [?c]\<rparr>"
      using ps w' by simp
    with 2 r m show ?thesis by force
  next
    case 3
    with assms show ?thesis by (simp add: gpu_branches_def)
  qed
qed

lemma save_model_frame:
  "save_model eng m p w = (r, w') \<Longrightarrow>
     session_open w' = session_open w \<and> device_scopes w' = device_scopes w \<and>
     fit_calls w' = fit_calls w"
  by (auto simp: save_model_def split: if_splits)

lemma gpu_branches_frame:
  assumes "gpu_branches eng x y h n w = (r, w')"
  shows "session_open w' = session_open w \<and> device_scopes w' = device_scopes w \<and>
         saved w' = saved w"
proof (cases r)
  case (Inl e)
  with assms gpu_branches_Inl show ?thesis by blast
next
  case (Inr v)
  with assms gpu_branches_Inr[of eng x y h n w v w'] show ?thesis by auto
qed

text \<open>The two drivers, by outcome.\<close>

lemma train_conv_net_cpu_Inl:
  assumes "train_conv_net_cpu eng x y h p seed w = (Inl e, w')"
  shows "w' = (if valid_seed seed
               then w\<lparr>np_seed := Some seed, tf_seed := Some seed, session_open := True\<rparr>
               else w)"
  using assms
  by (auto simp: train_conv_net_cpu_def Let_def split: prod.splits sum.splits if_splits
           dest: with_device_fit_Inl)

lemma train_conv_net_cpu_Inr:
  assumes "train_conv_net_cpu eng x y h p seed w = (Inr u, w')"
  shows "\<exists>c. w' = w\<lparr>np_seed := Some seed, tf_seed := Some seed, session_open := False,
                     fit_calls := fit_calls w @ [c]\<rparr> \<and> fit_batch_size c = batch_size h"
proof -
  let ?w2 = "w\<lparr>np_seed := Some seed, tf_seed := Some seed, session_open := True\<rparr>"
  from assms obtain scn w3 where
    f: "with_device ''/cpu:0'' (fit eng (new_net StandardConvNet h) x y True) ?w2 = (Inr scn, w3)"
    and w': "w' = w3\<lparr>session_open := False\<rparr>"
    by (auto simp: train_conv_net_cpu_def Let_def split: prod.splits sum.splits if_splits)
  from with_device_fit_Inr[OF f] obtain m where
    "w3 = ?w2\<lparr>fit_calls := fit_calls ?w2 @
             [\<lparr> fitted = m, fit_batch_size = batch_size h, fit_epochs = epochs h,
                fit_devices = ''/cpu:0'' # device_scopes ?w2 \<rparr>]\<rparr>"
    by (auto simp: new_net_def)
  with w' show ?thesis by (intro exI[of _ "\<lparr> fitted = m, fit_batch_size = batch_size h,
       fit_epochs = epochs h, fit_devices = ''/cpu:0'' # device_scopes ?w2 \<rparr>"]) simp
qed

lemma train_conv_net_gpu_Inl:
  assumes "train_conv_net_gpu eng x y h n seed dtype w = (Inl e, w')" "valid_seed seed"
  shows "session_open w' \<and> device_scopes w' = device_scopes w"
proof (cases "valid_floatx dtype")
  case False
  with assms show ?thesis by (auto simp: train_conv_net_gpu_def Let_def)
next
  case True
  let ?w3 = "w\<lparr>np_seed := Some seed, session_open := True, tf_seed := Some seed, floatx := dtype\<rparr>"
  obtain r w4 where g: "gpu_branches eng x y h n ?w3 = (r, w4)"
    by (cases "gpu_branches eng x y h n ?w3")
  from gpu_branches_frame[OF g] have fr: "session_open w4" "device_scopes w4 = device_scopes w"
    by simp_all
  from assms True g fr show ?thesis
    by (auto simp: train_conv_net_gpu_def Let_def
             split: prod.splits sum.splits option.splits dest: save_model_frame)
qed

lemma train_conv_net_gpu_Inr:
  assumes "train_conv_net_gpu eng x y h n seed dtype w = (Inr u, w')"
  shows "\<not> session_open w' \<and> device_scopes w' = device_scopes w \<and>
         (if n < 1 then fit_calls w' = fit_calls w \<and> saved w' = saved w
          else \<exists>c. fit_calls w' = fit_calls w @ [c] \<and> m_gpus (fitted c) = None \<and>
                 fit_batch_size c = batch_size h * n \<and>
                 saved w' = saved w @
                   [(''goes16_resnet_gpus_'' @ format_02d n @ ''.h5'', fitted c)])"
proof -
  let ?w3 = "w\<lparr>np_seed := Some seed, session_open := True, tf_seed := Some seed, floatx := dtype\<rparr>"
  from assms have v: "valid_floatx dtype" and vs: "valid_seed seed"
    by (auto simp: train_conv_net_gpu_def Let_def split: if_splits)
  obtain r w4 where g: "gpu_branches eng x y h n ?w3 = (r, w4)"
    by (cases "gpu_branches eng x y h n ?w3")
  with assms v vs obtain s where r: "r = Inr s"
    by (cases r) (auto simp: train_conv_net_gpu_def Let_def)
  from gpu_branches_Inr[OF g[unfolded r]]
  consider "n < 1" "s = None" "w4 = ?w3"
    | scn m c where "1 \<le> n" "s = Some scn" "model scn = Some m" "m_gpus m = None"
        "fitted c = m" "fit_batch_size c = batch_size h * n"
        "w4 = ?w3\<lparr>fit_calls := fit_calls ?w3 @ [c]\<rparr>"
    by blast
  then show ?thesis
  proof cases
    case 1
    with assms v vs g r show ?thesis
      by (auto simp: train_conv_net_gpu_def Let_def)
  next
    case 2
    with assms v vs g r show ?thesis
      by (auto simp: train_conv_net_gpu_def Let_def save_model_def
               split: prod.splits sum.splits if_splits)
  qed
qed

lemma format_02d_two_digits:
  assumes "0 \<le> n" "n < 100"
  shows "format_02d n = [digit_char (nat n div 10), digit_char (nat n mod 10)]"
proof (cases "n < 10")
  case True
  with assms have l: "nat n < 10" "nat n div 10 = 0" "nat n mod 10 = nat n" by simp_all
  then have "str_nat (nat n) = [digit_char (nat n)]"
    by (subst str_nat.simps) simp
  moreover have "char_of (48::nat) = CHR ''0''" by code_simp
  ultimately show ?thesis using l assms
    by (simp add: format_02d_def digit_char_def)
next
  case False
  with assms have d: "nat n div 10 < 10" and nl: "\<not> nat n < 10" by linarith+
  from nl have "str_nat (nat n) = str_nat (nat n div 10) @ [digit_char (nat n mod 10)]"
    by (subst str_nat.simps) simp
  also from d have "str_nat (nat n div 10) = [digit_char (nat n div 10)]"
    by (subst str_nat.simps) simp
  finally show ?thesis using assms by (simp add: format_02d_def)
qed

lemma train_conv_net_gpu_no_devices:
  assumes "n < 1"
  shows "fit_calls (snd (train_conv_net_gpu eng x y h n seed dtype w)) = fit_calls w \<and>
         saved (snd (train_conv_net_gpu eng x y h n seed dtype w)) = saved w"
  using assms by (simp add: train_conv_net_gpu_def gpu_branches_def Let_def)

subsection \<open>C4: the model fitted on several accelerators\<close>

text \<open>
  Claim C4 says that with more than one accelerator the model that is fitted is the
  replicated one.  The code replicates and compiles the model and then calls \<^verbatim>\<open>scn.fit\<close>
  with the default \<^verbatim>\<open>build=True\<close>, which builds and compiles a new network before fitting
  it.  On two accelerators, with the default hyperparameters and data of shape
  \<open>(8, 3, 4, 4)\<close>, the one training call is therefore made on a model that is not
  replicated (\<open>m_gpus = None\<close>), with the doubled batch size 512.
\<close>

theorem multi_gpu_fit_model_unreplicated:
  "map (\<lambda>c. (m_gpus (fitted c), fit_batch_size c))
       (fit_calls (snd (train_conv_net_gpu working_engine [8, 3, 4, 4] [8]
                          default_hyperparameters 2 0 ''float32'' initial_world)))
     = [(None, 512)]"
  by code_simp

subsection \<open>C5: the batch size on two accelerators\<close>

text \<open>
  Claim C5.  For the same hyperparameters, whenever \<^verbatim>\<open>train_conv_net_gpu\<close> returns
  normally, it has made exactly one training call; with one accelerator that call is
  given the configured batch size, with two accelerators exactly twice the configured
  batch size.
\<close>

theorem two_devices_double_batch_size:
  "(fst (train_conv_net_gpu eng x y h 1 seed dtype w) = Inr () \<longrightarrow>
      (\<exists>c. fit_calls (snd (train_conv_net_gpu eng x y h 1 seed dtype w)) = fit_calls w @ [c] \<and>
           fit_batch_size c = batch_size h)) \<and>
   (fst (train_conv_net_gpu eng x y h 2 seed dtype w) = Inr () \<longrightarrow>
      (\<exists>c. fit_calls (snd (train_conv_net_gpu eng x y h 2 seed dtype w)) = fit_calls w @ [c] \<and>
           fit_batch_size c = 2 * batch_size h))"
proof -
  have "\<exists>c. fit_calls (snd (train_conv_net_gpu eng x y h n seed dtype w)) = fit_calls w @ [c] \<and>
           fit_batch_size c = batch_size h * n"
    if "fst (train_conv_net_gpu eng x y h n seed dtype w) = Inr ()" "1 \<le> n" for n
  proof -
    have "train_conv_net_gpu eng x y h n seed dtype w =
            (Inr (), snd (train_conv_net_gpu eng x y h n seed dtype w))"
      using that(1) by (metis prod.collapse)
    from train_conv_net_gpu_Inr[OF this] that(2) show ?thesis by auto
  qed
  from this[of 1] this[of 2] show ?thesis by (simp add: mult.commute)
qed

theorem two_devices_double_batch_size_witness:
  "fst (train_conv_net_gpu working_engine [8, 3, 4, 4] [8] default_hyperparameters 1 0
          ''float32'' initial_world) = Inr () \<and>
   fst (train_conv_net_gpu working_engine [8, 3, 4, 4] [8] default_hyperparameters 2 0
          ''float32'' initial_world) = Inr () \<and>
   map fit_batch_size (fit_calls (snd (train_conv_net_gpu working_engine [8, 3, 4, 4] [8]
          default_hyperparameters 1 0 ''float32'' initial_world))) = [256] \<and>
   map fit_batch_size (fit_calls (snd (train_conv_net_gpu working_engine [8, 3, 4, 4] [8]
          default_hyperparameters 2 0 ''float32'' initial_world))) = [512]"
proof -
  let ?run = "\<lambda>n. train_conv_net_gpu working_engine [8, 3, 4, 4] [8] default_hyperparameters n 0
          ''float32'' initial_world"
  have r1: "fst (?run 1) = Inr ()" by code_simp
  have r2: "fst (?run 2) = Inr ()" by code_simp
  have b: "batch_size default_hyperparameters = 256" "fit_calls initial_world = []"
    by (simp_all add: default_hyperparameters_def initial_world_def)
  from two_devices_double_batch_size[of working_engine "[8, 3, 4, 4]" "[8]"
         default_hyperparameters 0 "''float32''" initial_world] r1 r2 b
  show ?thesis by auto
qed

subsection \<open>C6: releasing the session\<close>

text \<open>
  Claim C6 says that the session is released on every exit of the two drivers, also when
  training raises.  The drivers have no handler: \<^verbatim>\<open>sess.close()\<close> is their last statement.
  As amended: both drivers close the session whenever they return normally; when a step
  after the creation of the session raises (training included; a seed that
  \<^verbatim>\<open>np.random.seed\<close> rejects raises before it), the error propagates and the session is
  left open; the device scopes entered with \<^verbatim>\<open>with\<close> are left on every exit.
\<close>

theorem session_closed_on_normal_return:
  "(fst (train_conv_net_cpu eng x y h p seed w) = Inr () \<longrightarrow>
      \<not> session_open (snd (train_conv_net_cpu eng x y h p seed w))) \<and>
   (fst (train_conv_net_gpu eng x y h n seed dtype w) = Inr () \<longrightarrow>
      \<not> session_open (snd (train_conv_net_gpu eng x y h n seed dtype w))) \<and>
   (\<forall>e. valid_seed seed \<longrightarrow> fst (train_conv_net_cpu eng x y h p seed w) = Inl e \<longrightarrow>
      session_open (snd (train_conv_net_cpu eng x y h p seed w))) \<and>
   (\<forall>e. valid_seed seed \<longrightarrow> fst (train_conv_net_gpu eng x y h n seed dtype w) = Inl e \<longrightarrow>
      session_open (snd (train_conv_net_gpu eng x y h n seed dtype w))) \<and>
   device_scopes (snd (train_conv_net_cpu eng x y h p seed w)) = device_scopes w \<and>
   device_scopes (snd (train_conv_net_gpu eng x y h n seed dtype w)) = device_scopes w"
proof -
  obtain rc wc where c: "train_conv_net_cpu eng x y h p seed w = (rc, wc)"
    by (cases "train_conv_net_cpu eng x y h p seed w")
  obtain rg wg where g: "train_conv_net_gpu eng x y h n seed dtype w = (rg, wg)"
    by (cases "train_conv_net_gpu eng x y h n seed dtype w")
  have "(rc = Inr () \<longrightarrow> \<not> session_open wc) \<and>
        (\<forall>e. valid_seed seed \<longrightarrow> rc = Inl e \<longrightarrow> session_open wc) \<and>
        device_scopes wc = device_scopes w"
  proof (cases rc)
    case (Inl e)
    with train_conv_net_cpu_Inl[OF c[unfolded Inl]] show ?thesis by simp
  next
    case (Inr u)
    with train_conv_net_cpu_Inr[OF c[unfolded Inr]] show ?thesis by auto
  qed
  moreover have "(rg = Inr () \<longrightarrow> \<not> session_open wg) \<and>
        (\<forall>e. valid_seed seed \<longrightarrow> rg = Inl e \<longrightarrow> session_open wg) \<and>
        device_scopes wg = device_scopes w"
  proof (cases rg)
    case (Inl e)
    show ?thesis
    proof (cases "valid_seed seed")
      case True
      with Inl train_conv_net_gpu_Inl[OF g[unfolded Inl]] show ?thesis by simp
    next
      case False
      with g Inl show ?thesis by (simp add: train_conv_net_gpu_def)
    qed
  next
    case (Inr u)
    with train_conv_net_gpu_Inr[OF g[unfolded Inr]] show ?thesis by auto
  qed
  ultimately show ?thesis by (simp add: c g)
qed

theorem session_closed_on_normal_return_witness:
  "fst (train_conv_net_cpu working_engine [8, 3, 4, 4] [8] default_hyperparameters 2 0
          initial_world) = Inr () \<and>
   \<not> session_open (snd (train_conv_net_cpu working_engine [8, 3, 4, 4] [8]
          default_hyperparameters 2 0 initial_world)) \<and>
   fst (train_conv_net_gpu working_engine [8, 3, 4, 4] [8] default_hyperparameters 1 0
          ''float32'' initial_world) = Inr () \<and>
   \<not> session_open (snd (train_conv_net_gpu working_engine [8, 3, 4, 4] [8]
          default_hyperparameters 1 0 ''float32'' initial_world)) \<and>
   fst (train_conv_net_cpu (working_engine\<lparr>fit_raises := True\<rparr>) [8, 3, 4, 4] [8]
          default_hyperparameters 2 0 initial_world) = Inl EngineError \<and>
   session_open (snd (train_conv_net_cpu (working_engine\<lparr>fit_raises := True\<rparr>) [8, 3, 4, 4] [8]
          default_hyperparameters 2 0 initial_world))"
proof -
  have c: "fst (train_conv_net_cpu working_engine [8, 3, 4, 4] [8] default_hyperparameters 2 0
          initial_world) = Inr ()" by code_simp
  have g: "fst (train_conv_net_gpu working_engine [8, 3, 4, 4] [8] default_hyperparameters 1 0
          ''float32'' initial_world) = Inr ()" by code_simp
  have f: "fst (train_conv_net_cpu (working_engine\<lparr>fit_raises := True\<rparr>) [8, 3, 4, 4] [8]
          default_hyperparameters 2 0 initial_world) = Inl EngineError" by code_simp
  from c g session_closed_on_normal_return[of working_engine "[8, 3, 4, 4]" "[8]"
         default_hyperparameters 2 0 initial_world 1 "''float32''"]
  have "\<not> session_open (snd (train_conv_net_cpu working_engine [8, 3, 4, 4] [8]
          default_hyperparameters 2 0 initial_world)) \<and>
        \<not> session_open (snd (train_conv_net_gpu working_engine [8, 3, 4, 4] [8]
          default_hyperparameters 1 0 ''float32'' initial_world))" by blast
  moreover have "valid_seed 0" by (simp add: valid_seed_def)
  with f session_closed_on_normal_return[of "working_engine\<lparr>fit_raises := True\<rparr>"
         "[8, 3, 4, 4]" "[8]" default_hyperparameters 2 0 initial_world]
  have "session_open (snd (train_conv_net_cpu (working_engine\<lparr>fit_raises := True\<rparr>) [8, 3, 4, 4] [8]
          default_hyperparameters 2 0 initial_world))" by blast
  ultimately show ?thesis using c g f by blast
qed

text \<open>The claim as stated fails when training raises: the session stays open.\<close>

theorem session_left_open_counterexample:
  "fst (train_conv_net_cpu (working_engine\<lparr>fit_raises := True\<rparr>) [8, 3, 4, 4] [8]
          default_hyperparameters 2 0 initial_world) = Inl EngineError \<and>
   session_open (snd (train_conv_net_cpu (working_engine\<lparr>fit_raises := True\<rparr>) [8, 3, 4, 4] [8]
          default_hyperparameters 2 0 initial_world)) \<and>
   fst (train_conv_net_gpu (working_engine\<lparr>fit_raises := True\<rparr>) [8, 3, 4, 4] [8]
          default_hyperparameters 1 0 ''float32'' initial_world) = Inl EngineError \<and>
   session_open (snd (train_conv_net_gpu (working_engine\<lparr>fit_raises := True\<rparr>) [8, 3, 4, 4] [8]
          default_hyperparameters 1 0 ''float32'' initial_world))"
  by code_simp

subsection \<open>C7: saving the trained model\<close>

text \<open>
  Claim C7 says that every driver saves the model it trained under a name that carries
  the device count.  \<^verbatim>\<open>train_conv_net_cpu\<close> has no call that saves.  As amended: when
  \<^verbatim>\<open>train_conv_net_gpu\<close> returns normally with at least one accelerator, it has made one
  training call and saved the model of that call as \<^verbatim>\<open>goes16_resnet_gpus_<NN>.h5\<close>, where
  \<^verbatim>\<open><NN>\<close> is \<^verbatim>\<open>"{0:02d}".format(num_gpus)\<close>, two digits for counts below 100; with
  fewer than one accelerator nothing is trained or saved; \<^verbatim>\<open>train_conv_net_cpu\<close>
  never saves.
\<close>

theorem gpu_driver_saves_fitted_model:
  "(fst (train_conv_net_gpu eng x y h n seed dtype w) = Inr () \<longrightarrow> 1 \<le> n \<longrightarrow>
      (\<exists>c. fit_calls (snd (train_conv_net_gpu eng x y h n seed dtype w)) = fit_calls w @ [c] \<and>
           saved (snd (train_conv_net_gpu eng x y h n seed dtype w)) =
             saved w @ [(''goes16_resnet_gpus_'' @ format_02d n @ ''.h5'', fitted c)])) \<and>
   (n < 1 \<longrightarrow>
      fit_calls (snd (train_conv_net_gpu eng x y h n seed dtype w)) = fit_calls w \<and>
      saved (snd (train_conv_net_gpu eng x y h n seed dtype w)) = saved w) \<and>
   saved (snd (train_conv_net_cpu eng x y h p seed w)) = saved w \<and>
   (0 \<le> n \<longrightarrow> n < 100 \<longrightarrow>
      format_02d n = [digit_char (nat n div 10), digit_char (nat n mod 10)])"
proof -
  have a: "\<exists>c. fit_calls (snd (train_conv_net_gpu eng x y h n seed dtype w)) = fit_calls w @ [c] \<and>
           saved (snd (train_conv_net_gpu eng x y h n seed dtype w)) =
             saved w @ [(''goes16_resnet_gpus_'' @ format_02d n @ ''.h5'', fitted c)]"
    if "fst (train_conv_net_gpu eng x y h n seed dtype w) = Inr ()" "1 \<le> n"
  proof -
    have "train_conv_net_gpu eng x y h n seed dtype w =
            (Inr (), snd (train_conv_net_gpu eng x y h n seed dtype w))"
      using that(1) by (metis prod.collapse)
    from train_conv_net_gpu_Inr[OF this] that(2) show ?thesis by auto
  qed
  obtain rc wc where c: "train_conv_net_cpu eng x y h p seed w = (rc, wc)"
    by (cases "train_conv_net_cpu eng x y h p seed w")
  have "saved wc = saved w"
  proof (cases rc)
    case (Inl e)
    with train_conv_net_cpu_Inl[OF c[unfolded Inl]] show ?thesis by simp
  next
    case (Inr u)
    with train_conv_net_cpu_Inr[OF c[unfolded Inr]] show ?thesis by auto
  qed
  with a train_conv_net_gpu_no_devices[of n eng x y h seed dtype w] format_02d_two_digits[of n] c
  show ?thesis by auto
qed

theorem gpu_driver_saves_fitted_model_witness:
  "fst (train_conv_net_gpu working_engine [8, 3, 4, 4] [8] default_hyperparameters 2 0
          ''float32'' initial_world) = Inr () \<and>
   map fst (saved (snd (train_conv_net_gpu working_engine [8, 3, 4, 4] [8]
          default_hyperparameters 2 0 ''float32'' initial_world))) = [''goes16_resnet_gpus_02.h5''] \<and>
   saved (snd (train_conv_net_gpu working_engine [8, 3, 4, 4] [8]
          default_hyperparameters 0 0 ''float32'' initial_world)) = []"
proof -
  let ?run = "\<lambda>n. train_conv_net_gpu working_engine [8, 3, 4, 4] [8] default_hyperparameters n 0
          ''float32'' initial_world"
  have r: "fst (?run 2) = Inr ()" by code_simp
  have i: "saved initial_world = []" by (simp add: initial_world_def)
  have d: "format_02d 2 = ''02''" by code_simp
  note t2 = gpu_driver_saves_fitted_model[of working_engine "[8, 3, 4, 4]" "[8]"
         default_hyperparameters 2 0 "''float32''" initial_world 0]
  note t0 = gpu_driver_saves_fitted_model[of working_engine "[8, 3, 4, 4]" "[8]"
         default_hyperparameters 0 0 "''float32''" initial_world 0]
  have "\<exists>c. fit_calls (snd (?run 2)) = fit_calls initial_world @ [c] \<and>
          saved (snd (?run 2)) =
            saved initial_world @ [(''goes16_resnet_gpus_'' @ format_02d 2 @ ''.h5'', fitted c)]"
    using conjunct1[OF t2] r by simp
  then have "map fst (saved (snd (?run 2))) = [''goes16_resnet_gpus_02.h5'']"
    by (elim exE conjE) (simp add: i d)
  moreover from conjunct1[OF conjunct2[OF t0]]
  have "saved (snd (?run 0)) = saved initial_world" by simp
  ultimately show ?thesis using r i by simp
qed

text \<open>The claim as stated fails for the general-purpose device: a model is trained and
  nothing is saved.\<close>

theorem cpu_driver_saves_nothing_counterexample:
  "fst (train_conv_net_cpu working_engine [8, 3, 4, 4] [8] default_hyperparameters 2 0
          initial_world) = Inr () \<and>
   length (fit_calls (snd (train_conv_net_cpu working_engine [8, 3, 4, 4] [8]
          default_hyperparameters 2 0 initial_world))) = 1 \<and>
   saved (snd (train_conv_net_cpu working_engine [8, 3, 4, 4] [8]
          default_hyperparameters 2 0 initial_world)) = []"
  by code_simp

end
